theory Spec2Isabelle
  imports Main "HOL-Library.Word"
begin

section \<open>Byte-addressed memory\<close>

text \<open>
  \<^verbatim>\<open>unpack_root_item\<close> in \<^verbatim>\<open>btrfs.c\<close> receives two raw pointers and nothing else: there
  is no length argument and no return value. It is modelled over a flat, byte-addressed
  memory. Addresses are natural numbers, the null pointer is address 0.

  The development has two levels. The first, up to \<open>decode\<close>, computes what the six
  statements do to the contents of memory; it describes a call all of whose accesses hit
  mapped memory. The second, from \<open>outcome\<close> on, runs the same statements in an address
  space, where an access to an unmapped address faults and the call does not return.
\<close>

type_synonym byte = "8 word"
type_synonym u64 = "64 word"
type_synonym memory = "nat \<Rightarrow> byte"

definition load_bytes :: "memory \<Rightarrow> nat \<Rightarrow> nat \<Rightarrow> byte list" where
  "load_bytes m a n = map (\<lambda>i. m (a + i)) [0..<n]"

definition store_bytes :: "nat \<Rightarrow> byte list \<Rightarrow> memory \<Rightarrow> memory" where
  "store_bytes a bs m = (\<lambda>x. if a \<le> x \<and> x < a + length bs then bs ! (x - a) else m x)"

text \<open>
  The machine state carries, next to the memory, the list of regions (address, length)
  read and the list of regions written so far, in program order. The two lists are how
  statements about which bytes a call touches are expressed.
\<close>

record state =
  mem :: memory
  reads :: "(nat \<times> nat) list"
  writes :: "(nat \<times> nat) list"

definition region :: "nat \<times> nat \<Rightarrow> nat set" where
  "region r = {fst r ..< fst r + snd r}"

definition memcpy :: "nat \<Rightarrow> nat \<Rightarrow> nat \<Rightarrow> state \<Rightarrow> state" where
  "memcpy d s n st =
     st\<lparr>mem := store_bytes d (load_bytes (mem st) s n) (mem st),
        reads := reads st @ [(s, n)],
        writes := writes st @ [(d, n)]\<rparr>"

section \<open>64-bit integers in memory\<close>

text \<open>Little-endian value of a byte string, and the little-endian bytes of a number.\<close>

fun le_val :: "byte list \<Rightarrow> nat" where
  "le_val [] = 0"
| "le_val (b # bs) = unat b + 256 * le_val bs"

fun le_bytes :: "nat \<Rightarrow> nat \<Rightarrow> byte list" where
  "le_bytes 0 v = []"
| "le_bytes (Suc n) v = word_of_nat (v mod 256) # le_bytes n (v div 256)"

text \<open>
  A \<^verbatim>\<open>u64\<close> member of \<^verbatim>\<open>struct gosafe_btrfs_root_item\<close> is stored in the byte order of the
  host, which the code does not fix: \<open>be\<close> is \<open>True\<close> on a big-endian host.
\<close>

definition u64_repr :: "bool \<Rightarrow> u64 \<Rightarrow> byte list" where
  "u64_repr be v = (if be then rev (le_bytes 8 (unat v)) else le_bytes 8 (unat v))"

definition u64_value :: "bool \<Rightarrow> byte list \<Rightarrow> u64" where
  "u64_value be bs = word_of_nat (le_val (if be then rev bs else bs))"

definition store_u64 :: "bool \<Rightarrow> nat \<Rightarrow> u64 \<Rightarrow> state \<Rightarrow> state" where
  "store_u64 be a v st =
     st\<lparr>mem := store_bytes a (u64_repr be v) (mem st),
        writes := writes st @ [(a, 8)]\<rparr>"

section \<open>The two structures\<close>

text \<open>
  Modelled from the spec: \<^verbatim>\<open>BTRFS_UUID_SIZE\<close> comes from the btrfs headers, which are not
  among the sources; the specification fixes every UUID at 16 bytes.
\<close>

definition BTRFS_UUID_SIZE :: nat where
  "BTRFS_UUID_SIZE = 16"

text \<open>
  \<^verbatim>\<open>struct btrfs_root_item\<close> is declared in \<^verbatim>\<open>btrfs/ctree.h\<close>, which is not among the
  sources. Its layout is therefore a parameter: the byte offsets of the six members the
  function touches, and the size of the whole structure.
\<close>

record layout =
  off_generation :: nat
  off_flags :: nat
  off_uuid :: nat
  off_parent_uuid :: nat
  off_received_uuid :: nat
  off_otransid :: nat
  item_size :: nat

text \<open>Every member the function touches lies inside the structure.\<close>

definition layout_ok :: "layout \<Rightarrow> bool" where
  "layout_ok L \<longleftrightarrow>
     off_generation L + 8 \<le> item_size L \<and>
     off_flags L + 8 \<le> item_size L \<and>
     off_uuid L + BTRFS_UUID_SIZE \<le> item_size L \<and>
     off_parent_uuid L + BTRFS_UUID_SIZE \<le> item_size L \<and>
     off_received_uuid L + BTRFS_UUID_SIZE \<le> item_size L \<and>
     off_otransid L + 8 \<le> item_size L"

text \<open>
  \<^verbatim>\<open>struct gosafe_btrfs_root_item\<close> of \<^verbatim>\<open>btrfs.h\<close>: three \<^verbatim>\<open>u8[BTRFS_UUID_SIZE]\<close> arrays
  followed by three \<^verbatim>\<open>u64\<close>. With natural alignment the members sit at offsets
  0, 16, 32, 48, 56 and 64 without padding, and the structure is 72 bytes long.
\<close>

definition gosafe_uuid :: nat where "gosafe_uuid = 0"
definition gosafe_parent_uuid :: nat where "gosafe_parent_uuid = 16"
definition gosafe_received_uuid :: nat where "gosafe_received_uuid = 32"
definition gosafe_gen :: nat where "gosafe_gen = 48"
definition gosafe_ogen :: nat where "gosafe_ogen = 56"
definition gosafe_flags :: nat where "gosafe_flags = 64"
definition gosafe_size :: nat where "gosafe_size = 72"

record gosafe_btrfs_root_item =
  uuid :: "byte list"
  parent_uuid :: "byte list"
  received_uuid :: "byte list"
  gen :: u64
  ogen :: u64
  flags :: u64

text \<open>The structure a caller finds at address \<open>d\<close>.\<close>

definition read_item :: "bool \<Rightarrow> memory \<Rightarrow> nat \<Rightarrow> gosafe_btrfs_root_item" where
  "read_item be m d =
     \<lparr>uuid = load_bytes m (d + gosafe_uuid) BTRFS_UUID_SIZE,
      parent_uuid = load_bytes m (d + gosafe_parent_uuid) BTRFS_UUID_SIZE,
      received_uuid = load_bytes m (d + gosafe_received_uuid) BTRFS_UUID_SIZE,
      gen = u64_value be (load_bytes m (d + gosafe_gen) 8),
      ogen = u64_value be (load_bytes m (d + gosafe_ogen) 8),
      flags = u64_value be (load_bytes m (d + gosafe_flags) 8)\<rparr>"

section \<open>The accessors\<close>

text \<open>
  Modelled from the spec: \<^verbatim>\<open>btrfs_root_generation\<close>, \<^verbatim>\<open>btrfs_root_otransid\<close> and
  \<^verbatim>\<open>btrfs_root_flags\<close> are accessors of \<^verbatim>\<open>btrfs/ctree.h\<close>, which is not among the sources.
  The specification describes them as explicit-endianness reads of a 64-bit member at
  its packed offset; the byte order of a btrfs record is little-endian. Each reads the
  eight bytes of its member and returns their little-endian value, whatever the host.
\<close>

definition get_le64 :: "nat \<Rightarrow> state \<Rightarrow> u64 \<times> state" where
  "get_le64 a st =
     (word_of_nat (le_val (load_bytes (mem st) a 8)), st\<lparr>reads := reads st @ [(a, 8)]\<rparr>)"

definition btrfs_root_generation :: "layout \<Rightarrow> nat \<Rightarrow> state \<Rightarrow> u64 \<times> state" where
  "btrfs_root_generation L src st = get_le64 (src + off_generation L) st"

definition btrfs_root_otransid :: "layout \<Rightarrow> nat \<Rightarrow> state \<Rightarrow> u64 \<times> state" where
  "btrfs_root_otransid L src st = get_le64 (src + off_otransid L) st"

definition btrfs_root_flags :: "layout \<Rightarrow> nat \<Rightarrow> state \<Rightarrow> u64 \<times> state" where
  "btrfs_root_flags L src st = get_le64 (src + off_flags L) st"

section \<open>unpack_root_item\<close>

text \<open>
  \<^verbatim>\<open>
  void unpack_root_item(struct gosafe_btrfs_root_item* dst, struct btrfs_root_item* src) {
      memcpy(dst->uuid, src->uuid, BTRFS_UUID_SIZE);
      memcpy(dst->parent_uuid, src->parent_uuid, BTRFS_UUID_SIZE);
      memcpy(dst->received_uuid, src->received_uuid, BTRFS_UUID_SIZE);
      dst->gen = btrfs_root_generation(src);
      dst->ogen = btrfs_root_otransid(src);
      dst->flags = btrfs_root_flags(src);
  }
  \<close>
  Six statements, executed in order, with no branch.
\<close>

definition unpack_root_item :: "bool \<Rightarrow> layout \<Rightarrow> nat \<Rightarrow> nat \<Rightarrow> state \<Rightarrow> state" where
  "unpack_root_item be L dst src st0 =
     (let st1 = memcpy (dst + gosafe_uuid) (src + off_uuid L) BTRFS_UUID_SIZE st0;
          st2 = memcpy (dst + gosafe_parent_uuid) (src + off_parent_uuid L) BTRFS_UUID_SIZE st1;
          st3 = memcpy (dst + gosafe_received_uuid) (src + off_received_uuid L) BTRFS_UUID_SIZE st2;
          (g, st4) = btrfs_root_generation L src st3;
          st5 = store_u64 be (dst + gosafe_gen) g st4;
          (t, st6) = btrfs_root_otransid L src st5;
          st7 = store_u64 be (dst + gosafe_ogen) t st6;
          (f, st8) = btrfs_root_flags L src st7
      in store_u64 be (dst + gosafe_flags) f st8)"

text \<open>
  What a caller observes of one call that returns. The C function returns \<^verbatim>\<open>void\<close>: the
  only outcome is the structure left at \<open>dst\<close>. The result type makes room for the one
  error kind the specification names.
\<close>

datatype error = RecordTooSmall

definition init_state :: "memory \<Rightarrow> state" where
  "init_state m = \<lparr>mem = m, reads = [], writes = []\<rparr>"

definition decode :: "bool \<Rightarrow> layout \<Rightarrow> nat \<Rightarrow> nat \<Rightarrow> memory \<Rightarrow> error + gosafe_btrfs_root_item" where
  "decode be L dst src m =
     Inr (read_item be (mem (unpack_root_item be L dst src (init_state m))) dst)"

text \<open>The bytes of a member inside a raw record: \<open>n\<close> bytes from offset \<open>off\<close>.\<close>

definition field_bytes :: "byte list \<Rightarrow> nat \<Rightarrow> nat \<Rightarrow> byte list" where
  "field_bytes buf off n = take n (drop off buf)"

text \<open>Two regions of memory that share no address.\<close>

definition disjoint :: "nat \<Rightarrow> nat \<Rightarrow> nat \<Rightarrow> nat \<Rightarrow> bool" where
  "disjoint a n b k \<longleftrightarrow> a + n \<le> b \<or> b + k \<le> a"


section \<open>Concrete inputs\<close>

text \<open>
  The layout of the packed \<^verbatim>\<open>struct btrfs_root_item\<close> as the btrfs headers declare it
  (a 160-byte inode item first, 439 bytes in all). It instantiates the layout parameter
  in the examples; the general theorems do not depend on it.
\<close>

definition btrfs_root_item_layout :: layout where
  "btrfs_root_item_layout =
     \<lparr>off_generation = 160, off_flags = 208, off_uuid = 247, off_parent_uuid = 263,
      off_received_uuid = 279, off_otransid = 303, item_size = 439\<rparr>"

definition const_memory :: "byte \<Rightarrow> memory" where
  "const_memory c = (\<lambda>_. c)"

text \<open>
  A record in that layout, built member by member; \<open>pad\<close> fills every byte the function
  does not read.
\<close>

definition make_record ::
  "byte \<Rightarrow> byte list \<Rightarrow> byte list \<Rightarrow> byte list \<Rightarrow> nat \<Rightarrow> nat \<Rightarrow> nat \<Rightarrow> byte list" where
  "make_record pad u p r g t f =
     replicate 160 pad @ le_bytes 8 g @ replicate 40 pad @ le_bytes 8 f @ replicate 31 pad @
     u @ p @ r @ replicate 8 pad @ le_bytes 8 t @ replicate 128 pad"

text \<open>The record of the specification's concrete scenario, and the same with other padding.\<close>

definition sample_record :: "byte list" where
  "sample_record = make_record 0 (replicate 16 1) (replicate 16 0) (replicate 16 0) 42 40 1"

definition noisy_record :: "byte list" where
  "noisy_record = make_record 90 (replicate 16 1) (replicate 16 0) (replicate 16 0) 42 40 1"

text \<open>A record whose generation is below its origin generation, with every flag bit set.\<close>

definition odd_record :: "byte list" where
  "odd_record =
     make_record 0 (replicate 16 255) (replicate 16 254) (replicate 16 253) 1 9
       18446744073709551615"

text \<open>Truncated records: the first 300 bytes of one, the first 250 bytes of the other.\<close>

definition cut_record :: "byte list" where
  "cut_record = take 300 sample_record"

definition torn_record :: "byte list" where
  "torn_record = take 250 noisy_record"

text \<open>Memory contents: 0xFF in the 72 bytes from address 1000, 0x07 everywhere else.\<close>

definition backdrop :: memory where
  "backdrop = store_bytes 1000 (replicate 72 255) (const_memory 7)"

section \<open>Execution in an address space\<close>

text \<open>
  An address space is the set \<open>V\<close> of mapped addresses. A call ends in one of three ways:
  it faults on an access to an unmapped address and never returns, it reports an error
  to its caller, or it returns. \<^verbatim>\<open>unpack_root_item\<close> has no statement that reports an
  error; the constructor \<open>Failed\<close> is there so that this can be stated and proved.
\<close>

datatype 'a outcome = Fault | Failed error | Returned 'a

definition and_then :: "'a outcome \<Rightarrow> ('a \<Rightarrow> 'b outcome) \<Rightarrow> 'b outcome" where
  "and_then x f = (case x of Fault \<Rightarrow> Fault | Failed e \<Rightarrow> Failed e | Returned a \<Rightarrow> f a)"

definition mapped :: "nat set \<Rightarrow> nat \<Rightarrow> nat \<Rightarrow> bool" where
  "mapped V a n \<longleftrightarrow> region (a, n) \<subseteq> V"

text \<open>Each access of the first level, preceded by the test the hardware makes.\<close>

definition memcpy_in :: "nat set \<Rightarrow> nat \<Rightarrow> nat \<Rightarrow> nat \<Rightarrow> state \<Rightarrow> state outcome" where
  "memcpy_in V d s n st =
     (if mapped V s n \<and> mapped V d n then Returned (memcpy d s n st) else Fault)"

definition get_le64_in :: "nat set \<Rightarrow> nat \<Rightarrow> state \<Rightarrow> (u64 \<times> state) outcome" where
  "get_le64_in V a st = (if mapped V a 8 then Returned (get_le64 a st) else Fault)"

definition store_u64_in :: "nat set \<Rightarrow> bool \<Rightarrow> nat \<Rightarrow> u64 \<Rightarrow> state \<Rightarrow> state outcome" where
  "store_u64_in V be a v st = (if mapped V a 8 then Returned (store_u64 be a v st) else Fault)"

definition btrfs_root_generation_in ::
  "nat set \<Rightarrow> layout \<Rightarrow> nat \<Rightarrow> state \<Rightarrow> (u64 \<times> state) outcome" where
  "btrfs_root_generation_in V L src st = get_le64_in V (src + off_generation L) st"

definition btrfs_root_otransid_in ::
  "nat set \<Rightarrow> layout \<Rightarrow> nat \<Rightarrow> state \<Rightarrow> (u64 \<times> state) outcome" where
  "btrfs_root_otransid_in V L src st = get_le64_in V (src + off_otransid L) st"

definition btrfs_root_flags_in ::
  "nat set \<Rightarrow> layout \<Rightarrow> nat \<Rightarrow> state \<Rightarrow> (u64 \<times> state) outcome" where
  "btrfs_root_flags_in V L src st = get_le64_in V (src + off_flags L) st"

text \<open>
  The six statements of \<^verbatim>\<open>unpack_root_item\<close> again, in the same order, each one run only
  if the one before it returned. Neither pointer is compared with anything, and no length
  is available to compare with.
\<close>

definition run_unpack_root_item ::
  "nat set \<Rightarrow> bool \<Rightarrow> layout \<Rightarrow> nat \<Rightarrow> nat \<Rightarrow> state \<Rightarrow> state outcome" where
  "run_unpack_root_item V be L dst src st0 =
     and_then (memcpy_in V (dst + gosafe_uuid) (src + off_uuid L) BTRFS_UUID_SIZE st0) (\<lambda>st1.
     and_then (memcpy_in V (dst + gosafe_parent_uuid) (src + off_parent_uuid L)
                 BTRFS_UUID_SIZE st1) (\<lambda>st2.
     and_then (memcpy_in V (dst + gosafe_received_uuid) (src + off_received_uuid L)
                 BTRFS_UUID_SIZE st2) (\<lambda>st3.
     and_then (btrfs_root_generation_in V L src st3) (\<lambda>(g, st4).
     and_then (store_u64_in V be (dst + gosafe_gen) g st4) (\<lambda>st5.
     and_then (btrfs_root_otransid_in V L src st5) (\<lambda>(t, st6).
     and_then (store_u64_in V be (dst + gosafe_ogen) t st6) (\<lambda>st7.
     and_then (btrfs_root_flags_in V L src st7) (\<lambda>(f, st8).
     store_u64_in V be (dst + gosafe_flags) f st8))))))))"

text \<open>What the caller observes: the structure at \<open>dst\<close> once the call has returned.\<close>

definition run_decode ::
  "nat set \<Rightarrow> bool \<Rightarrow> layout \<Rightarrow> nat \<Rightarrow> nat \<Rightarrow> memory \<Rightarrow>
   gosafe_btrfs_root_item outcome" where
  "run_decode V be L dst src m =
     and_then (run_unpack_root_item V be L dst src (init_state m))
       (\<lambda>st. Returned (read_item be (mem st) dst))"

text \<open>Every byte the six statements read or write is mapped.\<close>

definition access_ok :: "nat set \<Rightarrow> layout \<Rightarrow> nat \<Rightarrow> nat \<Rightarrow> bool" where
  "access_ok V L dst src \<longleftrightarrow>
     mapped V (src + off_uuid L) BTRFS_UUID_SIZE \<and> mapped V (dst + gosafe_uuid) BTRFS_UUID_SIZE \<and>
     mapped V (src + off_parent_uuid L) BTRFS_UUID_SIZE \<and>
     mapped V (dst + gosafe_parent_uuid) BTRFS_UUID_SIZE \<and>
     mapped V (src + off_received_uuid L) BTRFS_UUID_SIZE \<and>
     mapped V (dst + gosafe_received_uuid) BTRFS_UUID_SIZE \<and>
     mapped V (src + off_generation L) 8 \<and> mapped V (dst + gosafe_gen) 8 \<and>
     mapped V (src + off_otransid L) 8 \<and> mapped V (dst + gosafe_ogen) 8 \<and>
     mapped V (src + off_flags L) 8 \<and> mapped V (dst + gosafe_flags) 8"

text \<open>
  Two address spaces. In both, an output structure is mapped at 1000 and address 0 is
  not mapped. In the first a whole source structure is mapped at 4096, in the second
  only its first 250 bytes.
\<close>

definition wide_space :: "nat set" where
  "wide_space = {1000..<1072} \<union> {4096..<4535}"

definition tight_space :: "nat set" where
  "tight_space = {1000..<1072} \<union> {4096..<4346}"

section \<open>Memory lemmas\<close>

lemma length_load_bytes: "length (load_bytes m a n) = n"
  by (simp add: load_bytes_def)

lemma store_bytes_outside: "x < a \<or> a + length bs \<le> x \<Longrightarrow> store_bytes a bs m x = m x"
  by (auto simp: store_bytes_def)

lemma load_store_same: "n = length bs \<Longrightarrow> load_bytes (store_bytes a bs m) a n = bs"
  by (auto simp: load_bytes_def store_bytes_def intro!: nth_equalityI)

lemma load_store_disjoint:
  "disjoint a n d (length bs) \<Longrightarrow> load_bytes (store_bytes d bs m) a n = load_bytes m a n"
  by (auto simp: load_bytes_def store_bytes_def disjoint_def)

lemma load_placed:
  "off + n \<le> length buf \<Longrightarrow>
   load_bytes (store_bytes src buf m) (src + off) n = field_bytes buf off n"
  by (auto simp: load_bytes_def store_bytes_def field_bytes_def intro!: nth_equalityI)

lemma load_beyond:
  "length buf \<le> off \<Longrightarrow>
   load_bytes (store_bytes src buf m) (src + off) n = load_bytes m (src + off) n"
  by (rule load_store_disjoint) (simp add: disjoint_def)

lemma load_bytes_const: "load_bytes (const_memory c) a n = replicate n c"
  by (simp add: load_bytes_def const_memory_def map_replicate_const)

lemma length_field_bytes: "off + n \<le> length buf \<Longrightarrow> length (field_bytes buf off n) = n"
  by (simp add: field_bytes_def)

lemma nth_field_bytes:
  "off + n \<le> length buf \<Longrightarrow> i < n \<Longrightarrow> field_bytes buf off n ! i = buf ! (off + i)"
  by (simp add: field_bytes_def)

section \<open>Integer encoding lemmas\<close>

lemma length_le_bytes: "length (le_bytes n v) = n"
  by (induction n arbitrary: v) simp_all

lemma le_val_le_bytes: "le_val (le_bytes n v) = v mod 256 ^ n"
proof (induction n arbitrary: v)
  case 0
  show ?case by simp
next
  case (Suc n)
  have "unat (word_of_nat (v mod 256) :: byte) = v mod 256"
    by (simp add: unat_of_nat)
  then have "le_val (le_bytes (Suc n) v) = v mod 256 + 256 * ((v div 256) mod 256 ^ n)"
    by (simp add: Suc.IH)
  also have "\<dots> = v mod 256 ^ Suc n"
    by (simp add: mod_mult2_eq)
  finally show ?case .
qed

lemma le_val_bound: "le_val bs < 256 ^ length bs"
proof (induction bs)
  case Nil
  show ?case by simp
next
  case (Cons b bs)
  have "unat b < 256"
    using unsigned_less [of b, where 'a = nat] by simp
  with Cons show ?case by simp
qed

lemma length_u64_repr: "length (u64_repr be v) = 8"
  by (simp add: u64_repr_def length_le_bytes)

lemma u64_value_repr: "u64_value be (u64_repr be v) = v"
proof -
  have "unat v < 256 ^ 8"
    using unsigned_less [of v, where 'a = nat] by simp
  then have "le_val (le_bytes 8 (unat v)) = unat v"
    by (simp add: le_val_le_bytes)
  then show ?thesis
    by (simp add: u64_value_def u64_repr_def)
qed

lemma unat_le64: "length bs = 8 \<Longrightarrow> unat (word_of_nat (le_val bs) :: u64) = le_val bs"
  using le_val_bound [of bs] by (simp add: unat_of_nat)

lemma le64_le_bytes: "(word_of_nat (le_val (le_bytes 8 (unat (v :: u64)))) :: u64) = v"
  using u64_value_repr [of False v] by (simp add: u64_value_def u64_repr_def)

section \<open>What one call does\<close>

lemmas gosafe_defs = gosafe_uuid_def gosafe_parent_uuid_def gosafe_received_uuid_def
  gosafe_gen_def gosafe_ogen_def gosafe_flags_def gosafe_size_def BTRFS_UUID_SIZE_def

lemmas step_defs = memcpy_def store_u64_def get_le64_def btrfs_root_generation_def
  btrfs_root_otransid_def btrfs_root_flags_def

lemma unpack_reads:
  "reads (unpack_root_item be L dst src st) =
     reads st @ [(src + off_uuid L, 16), (src + off_parent_uuid L, 16),
                 (src + off_received_uuid L, 16), (src + off_generation L, 8),
                 (src + off_otransid L, 8), (src + off_flags L, 8)]"
  by (simp add: unpack_root_item_def step_defs gosafe_defs Let_def)

lemma unpack_writes:
  "writes (unpack_root_item be L dst src st) =
     writes st @ [(dst, 16), (dst + 16, 16), (dst + 32, 16), (dst + 48, 8),
                  (dst + 56, 8), (dst + 64, 8)]"
  by (simp add: unpack_root_item_def step_defs gosafe_defs Let_def)

lemma unpack_outside:
  "x < dst \<or> dst + 72 \<le> x \<Longrightarrow> mem (unpack_root_item be L dst src st) x = mem st x"
  by (auto simp: unpack_root_item_def step_defs gosafe_defs Let_def store_bytes_outside
      length_load_bytes length_u64_repr)

lemma load_after_dst_store:
  assumes "disjoint dst 72 src sz" "off + n \<le> sz" "dst \<le> d" "d + length bs \<le> dst + 72"
  shows "load_bytes (store_bytes d bs m) (src + off) n = load_bytes m (src + off) n"
  using assms by (intro load_store_disjoint) (auto simp: disjoint_def)

text \<open>
  The structure left at \<open>dst\<close>, in terms of the memory before the call, when \<open>dst\<close> does
  not overlap the source structure.
\<close>

lemma decode_mem:
  assumes ok: "layout_ok L" and dj: "disjoint dst gosafe_size src (item_size L)"
  shows "decode be L dst src m =
     Inr \<lparr>uuid = load_bytes m (src + off_uuid L) 16,
          parent_uuid = load_bytes m (src + off_parent_uuid L) 16,
          received_uuid = load_bytes m (src + off_received_uuid L) 16,
          gen = word_of_nat (le_val (load_bytes m (src + off_generation L) 8)),
          ogen = word_of_nat (le_val (load_bytes m (src + off_otransid L) 8)),
          flags = word_of_nat (le_val (load_bytes m (src + off_flags L) 8))\<rparr>"
proof -
  have dj': "disjoint dst 72 src (item_size L)"
    using dj by (simp add: gosafe_size_def)
  note ld = load_after_dst_store [OF dj']
  have o: "off_generation L + 8 \<le> item_size L" "off_flags L + 8 \<le> item_size L"
    "off_uuid L + 16 \<le> item_size L" "off_parent_uuid L + 16 \<le> item_size L"
    "off_received_uuid L + 16 \<le> item_size L" "off_otransid L + 8 \<le> item_size L"
    using ok by (simp_all add: layout_ok_def BTRFS_UUID_SIZE_def)
  show ?thesis
    by (simp add: decode_def init_state_def read_item_def unpack_root_item_def step_defs
        gosafe_defs Let_def ld o length_load_bytes length_u64_repr
        load_store_same load_store_disjoint disjoint_def u64_value_repr)
qed

text \<open>The same when the memory holds a full-size record \<open>buf\<close> at \<open>src\<close>.\<close>

lemma decode_placed:
  assumes ok: "layout_ok L" and len: "length buf = item_size L"
    and dj: "disjoint dst gosafe_size src (item_size L)"
  shows "decode be L dst src (store_bytes src buf m) =
     Inr \<lparr>uuid = field_bytes buf (off_uuid L) BTRFS_UUID_SIZE,
          parent_uuid = field_bytes buf (off_parent_uuid L) BTRFS_UUID_SIZE,
          received_uuid = field_bytes buf (off_received_uuid L) BTRFS_UUID_SIZE,
          gen = word_of_nat (le_val (field_bytes buf (off_generation L) 8)),
          ogen = word_of_nat (le_val (field_bytes buf (off_otransid L) 8)),
          flags = word_of_nat (le_val (field_bytes buf (off_flags L) 8))\<rparr>"
proof -
  have o: "off_generation L + 8 \<le> length buf" "off_flags L + 8 \<le> length buf"
    "off_uuid L + 16 \<le> length buf" "off_parent_uuid L + 16 \<le> length buf"
    "off_received_uuid L + 16 \<le> length buf" "off_otransid L + 8 \<le> length buf"
    using ok len by (simp_all add: layout_ok_def BTRFS_UUID_SIZE_def)
  show ?thesis
    by (simp add: decode_mem [OF ok dj] load_placed o BTRFS_UUID_SIZE_def)
qed

section \<open>Facts about the concrete inputs\<close>

lemma layout_ok_btrfs: "layout_ok btrfs_root_item_layout"
  by (simp add: layout_ok_def btrfs_root_item_layout_def BTRFS_UUID_SIZE_def)

lemma disjoint_example: "disjoint 1000 gosafe_size 0 (item_size btrfs_root_item_layout)"
  by (simp add: disjoint_def gosafe_size_def btrfs_root_item_layout_def)

lemma length_make_record:
  "length u = 16 \<Longrightarrow> length p = 16 \<Longrightarrow> length r = 16 \<Longrightarrow>
   length (make_record pad u p r g t f) = item_size btrfs_root_item_layout"
  by (simp add: make_record_def length_le_bytes btrfs_root_item_layout_def)

lemma make_record_fields:
  assumes "length u = 16" "length p = 16" "length r = 16"
  shows "field_bytes (make_record pad u p r g t f) (off_uuid btrfs_root_item_layout) 16 = u"
    and "field_bytes (make_record pad u p r g t f) (off_parent_uuid btrfs_root_item_layout) 16 = p"
    and "field_bytes (make_record pad u p r g t f) (off_received_uuid btrfs_root_item_layout) 16 = r"
    and "field_bytes (make_record pad u p r g t f) (off_generation btrfs_root_item_layout) 8
         = le_bytes 8 g"
    and "field_bytes (make_record pad u p r g t f) (off_otransid btrfs_root_item_layout) 8
         = le_bytes 8 t"
    and "field_bytes (make_record pad u p r g t f) (off_flags btrfs_root_item_layout) 8
         = le_bytes 8 f"
  using assms
  by (simp_all add: make_record_def field_bytes_def length_le_bytes btrfs_root_item_layout_def)

section \<open>Execution in an address space: lemmas\<close>

lemmas in_defs = memcpy_in_def get_le64_in_def store_u64_in_def btrfs_root_generation_in_def
  btrfs_root_otransid_in_def btrfs_root_flags_in_def

lemma and_then_simps:
  "and_then Fault f = Fault" "and_then (Failed e) f = Failed e" "and_then (Returned a) f = f a"
  by (simp_all add: and_then_def)

lemma run_unpack_eq:
  "run_unpack_root_item V be L dst src st =
     (if access_ok V L dst src then Returned (unpack_root_item be L dst src st) else Fault)"
  by (simp add: run_unpack_root_item_def unpack_root_item_def access_ok_def in_defs
      and_then_simps get_le64_def btrfs_root_generation_def btrfs_root_otransid_def
      btrfs_root_flags_def Let_def)

lemma run_decode_eq:
  "run_decode V be L dst src m =
     (if access_ok V L dst src
      then Returned (read_item be (mem (unpack_root_item be L dst src (init_state m))) dst)
      else Fault)"
  by (simp add: run_decode_def run_unpack_eq and_then_simps)


lemma load_under:
  assumes "disjoint dst 72 a n" "dst \<le> d" "d + length bs \<le> dst + 72"
  shows "load_bytes (store_bytes d bs m) a n = load_bytes m a n"
  using assms by (intro load_store_disjoint) (auto simp: disjoint_def)

lemma load_over:
  assumes "d + length bs \<le> a \<or> a + n \<le> d"
  shows "load_bytes (store_bytes d bs m) a n = load_bytes m a n"
  using assms by (intro load_store_disjoint) (auto simp: disjoint_def)

lemmas unfold_unpack = unpack_root_item_def step_defs gosafe_defs Let_def

lemma unpack_uuid_field:
  shows "load_bytes (mem (unpack_root_item be L dst src st)) (dst + gosafe_uuid) BTRFS_UUID_SIZE
         = load_bytes (mem st) (src + off_uuid L) BTRFS_UUID_SIZE"
  by (simp add: unfold_unpack load_over load_store_same length_load_bytes length_u64_repr)

lemma unpack_parent_uuid_field:
  assumes "disjoint dst gosafe_size (src + off_parent_uuid L) BTRFS_UUID_SIZE"
  shows "load_bytes (mem (unpack_root_item be L dst src st)) (dst + gosafe_parent_uuid)
           BTRFS_UUID_SIZE
         = load_bytes (mem st) (src + off_parent_uuid L) BTRFS_UUID_SIZE"
proof -
  note u = load_under [OF assms [unfolded gosafe_size_def BTRFS_UUID_SIZE_def]]
  show ?thesis
    by (simp add: unfold_unpack load_over load_store_same length_load_bytes length_u64_repr u)
qed

lemma unpack_received_uuid_field:
  assumes "disjoint dst gosafe_size (src + off_received_uuid L) BTRFS_UUID_SIZE"
  shows "load_bytes (mem (unpack_root_item be L dst src st)) (dst + gosafe_received_uuid)
           BTRFS_UUID_SIZE
         = load_bytes (mem st) (src + off_received_uuid L) BTRFS_UUID_SIZE"
proof -
  note u = load_under [OF assms [unfolded gosafe_size_def BTRFS_UUID_SIZE_def]]
  show ?thesis
    by (simp add: unfold_unpack load_over load_store_same length_load_bytes length_u64_repr u)
qed

lemma unpack_gen_field:
  assumes "disjoint dst gosafe_size (src + off_generation L) 8"
  shows "u64_value be (load_bytes (mem (unpack_root_item be L dst src st)) (dst + gosafe_gen) 8)
         = word_of_nat (le_val (load_bytes (mem st) (src + off_generation L) 8))"
proof -
  note u = load_under [OF assms [unfolded gosafe_size_def]]
  show ?thesis
    by (simp add: unfold_unpack load_over load_store_same length_load_bytes length_u64_repr u
        u64_value_repr)
qed

lemma unpack_ogen_field:
  assumes "disjoint dst gosafe_size (src + off_otransid L) 8"
  shows "u64_value be (load_bytes (mem (unpack_root_item be L dst src st)) (dst + gosafe_ogen) 8)
         = word_of_nat (le_val (load_bytes (mem st) (src + off_otransid L) 8))"
proof -
  note u = load_under [OF assms [unfolded gosafe_size_def]]
  show ?thesis
    by (simp add: unfold_unpack load_over load_store_same length_load_bytes length_u64_repr u
        u64_value_repr)
qed

lemma unpack_flags_field:
  assumes "disjoint dst gosafe_size (src + off_flags L) 8"
  shows "u64_value be (load_bytes (mem (unpack_root_item be L dst src st)) (dst + gosafe_flags) 8)
         = word_of_nat (le_val (load_bytes (mem st) (src + off_flags L) 8))"
proof -
  note u = load_under [OF assms [unfolded gosafe_size_def]]
  show ?thesis
    by (simp add: unfold_unpack load_over load_store_same length_load_bytes length_u64_repr u
        u64_value_repr)
qed


lemma run_unpack_not_failed: "run_unpack_root_item V be L dst src st \<noteq> Failed e"
  by (simp add: run_unpack_eq)

lemma run_decode_not_failed: "run_decode V be L dst src m \<noteq> Failed e"
  by (simp add: run_decode_eq)

lemma mapped_part: "mapped V a n \<Longrightarrow> a \<le> b \<Longrightarrow> b + k \<le> a + n \<Longrightarrow> mapped V b k"
  by (auto simp: mapped_def region_def)

lemma access_ok_full:
  assumes "layout_ok L" "mapped V src (item_size L)" "mapped V dst gosafe_size"
  shows "access_ok V L dst src"
proof -
  have s: "mapped V (src + off) n" if "off + n \<le> item_size L" for off n
    using that by (intro mapped_part [OF assms(2)]) simp_all
  have d: "mapped V (dst + off) n" if "off + n \<le> 72" for off n
    using that by (intro mapped_part [OF assms(3)]) (simp_all add: gosafe_size_def)
  show ?thesis
    using assms(1) d [of 0 16] by (simp add: access_ok_def layout_ok_def gosafe_defs s d)
qed

lemma load_inside_abs:
  assumes "src \<le> a" "a + n \<le> src + length buf"
  shows "load_bytes (store_bytes src buf m) a n = field_bytes buf (a - src) n"
  using assms load_placed [of "a - src" n buf src m] by simp

lemma load_beyond_abs:
  "src + length buf \<le> a \<Longrightarrow> load_bytes (store_bytes src buf m) a n = load_bytes m a n"
  by (rule load_over) simp

lemma load_split: "load_bytes m a (n1 + n2) = load_bytes m a n1 @ load_bytes m (a + n1) n2"
  by (rule nth_equalityI) (auto simp: load_bytes_def nth_append)

lemma field_bytes_take:
  "off + n \<le> k \<Longrightarrow> field_bytes (take k xs) off n = field_bytes xs off n"
  by (simp add: field_bytes_def drop_take min_def)

section \<open>Facts about the concrete address spaces and truncated records\<close>

lemma mapped_wide_src: "4096 \<le> a \<Longrightarrow> a + n \<le> 4535 \<Longrightarrow> mapped wide_space a n"
  by (auto simp: mapped_def region_def wide_space_def)

lemma mapped_wide_dst: "1000 \<le> a \<Longrightarrow> a + n \<le> 1072 \<Longrightarrow> mapped wide_space a n"
  by (auto simp: mapped_def region_def wide_space_def)

lemma access_ok_wide: "access_ok wide_space btrfs_root_item_layout 1000 4096"
  by (simp add: access_ok_def btrfs_root_item_layout_def gosafe_defs mapped_wide_src
      mapped_wide_dst)

lemma not_mapped_null: "0 < n \<Longrightarrow> 0 \<notin> V \<Longrightarrow> \<not> mapped V 0 n"
  by (auto simp: mapped_def region_def)

lemma not_mapped_witness: "a \<le> x \<Longrightarrow> x < a + n \<Longrightarrow> x \<notin> V \<Longrightarrow> \<not> mapped V a n"
  by (auto simp: mapped_def region_def)

lemma null_not_wide: "0 \<notin> wide_space"
  by (simp add: wide_space_def)

lemma disjoint_wide: "disjoint 1000 gosafe_size 4096 (item_size btrfs_root_item_layout)"
  by (simp add: disjoint_def gosafe_size_def)

lemma length_sample_record: "length sample_record = 439"
  using length_make_record [of "replicate 16 1" "replicate 16 0" "replicate 16 0" 0 42 40 1]
  by (simp add: sample_record_def btrfs_root_item_layout_def)

lemma length_noisy_record: "length noisy_record = 439"
  using length_make_record [of "replicate 16 1" "replicate 16 0" "replicate 16 0" 90 42 40 1]
  by (simp add: noisy_record_def btrfs_root_item_layout_def)

lemma length_cut_record: "length cut_record = 300"
  by (simp add: cut_record_def length_sample_record)

lemma length_torn_record: "length torn_record = 250"
  by (simp add: torn_record_def length_noisy_record)

lemma sample_fields:
  "field_bytes sample_record 247 16 = replicate 16 1"
  "field_bytes sample_record 263 16 = replicate 16 0"
  "field_bytes sample_record 279 16 = replicate 16 0"
  "field_bytes sample_record 160 8 = le_bytes 8 42"
  "field_bytes sample_record 303 8 = le_bytes 8 40"
  "field_bytes sample_record 208 8 = le_bytes 8 1"
  using make_record_fields [of "replicate 16 1" "replicate 16 0" "replicate 16 0" 0 42 40 1]
  by (simp_all add: sample_record_def btrfs_root_item_layout_def)

lemma noisy_fields:
  "field_bytes noisy_record 247 3 = replicate 3 1"
  "field_bytes noisy_record 160 8 = le_bytes 8 42"
  "field_bytes noisy_record 208 8 = le_bytes 8 1"
  by (simp_all add: noisy_record_def make_record_def field_bytes_def length_le_bytes)

lemma load_backdrop: "1072 \<le> a \<Longrightarrow> load_bytes backdrop a n = replicate n 7"
  by (simp add: backdrop_def load_over load_bytes_const)

lemma le64_of_le_bytes: "(word_of_nat (le_val (le_bytes 8 v)) :: u64) = word_of_nat v"
  by (simp add: le_val_le_bytes word_of_nat_eq_iff take_bit_eq_mod)

lemma le_val_sevens: "le_val (replicate 8 7) = 506381209866536711"
proof -
  have "replicate 8 (7::byte) = [7, 7, 7, 7, 7, 7, 7, 7]"
    by (simp add: numeral_eq_Suc)
  then show ?thesis
    by simp
qed

lemma read_item_unpack:
  assumes "layout_ok L" "disjoint dst gosafe_size src (item_size L)"
  shows "read_item be (mem (unpack_root_item be L dst src (init_state m))) dst =
     \<lparr>uuid = load_bytes m (src + off_uuid L) 16,
      parent_uuid = load_bytes m (src + off_parent_uuid L) 16,
      received_uuid = load_bytes m (src + off_received_uuid L) 16,
      gen = word_of_nat (le_val (load_bytes m (src + off_generation L) 8)),
      ogen = word_of_nat (le_val (load_bytes m (src + off_otransid L) 8)),
      flags = word_of_nat (le_val (load_bytes m (src + off_flags L) 8))\<rparr>"
  using decode_mem [OF assms, of be m] by (simp add: decode_def)

lemma cut_fields: "off + n \<le> 300 \<Longrightarrow> field_bytes cut_record off n = field_bytes sample_record off n"
  by (simp add: cut_record_def field_bytes_take)

lemma torn_fields: "off + n \<le> 250 \<Longrightarrow> field_bytes torn_record off n = field_bytes noisy_record off n"
  by (simp add: torn_record_def field_bytes_take)

lemma cut_loads:
  "load_bytes (store_bytes 4096 cut_record backdrop) 4343 16 = replicate 16 1"
  "load_bytes (store_bytes 4096 cut_record backdrop) 4359 16 = replicate 16 0"
  "load_bytes (store_bytes 4096 cut_record backdrop) 4375 16 = replicate 16 0"
  "load_bytes (store_bytes 4096 cut_record backdrop) 4256 8 = le_bytes 8 42"
  "load_bytes (store_bytes 4096 cut_record backdrop) 4304 8 = le_bytes 8 1"
  "load_bytes (store_bytes 4096 cut_record backdrop) 4399 8 = replicate 8 7"
  by (simp_all add: load_inside_abs load_beyond_abs length_cut_record cut_fields
      sample_fields load_backdrop)

lemma torn_loads:
  "load_bytes (store_bytes 4096 torn_record backdrop) 4343 16 = replicate 3 1 @ replicate 13 7"
  "load_bytes (store_bytes 4096 torn_record backdrop) 4359 16 = replicate 16 7"
  "load_bytes (store_bytes 4096 torn_record backdrop) 4375 16 = replicate 16 7"
  "load_bytes (store_bytes 4096 torn_record backdrop) 4256 8 = le_bytes 8 42"
  "load_bytes (store_bytes 4096 torn_record backdrop) 4304 8 = le_bytes 8 1"
  "load_bytes (store_bytes 4096 torn_record backdrop) 4399 8 = replicate 8 7"
proof -
  have "load_bytes (store_bytes 4096 torn_record backdrop) 4343 (3 + 13)
      = replicate 3 1 @ replicate 13 7"
    unfolding load_split
    by (simp add: load_inside_abs load_beyond_abs length_torn_record torn_fields
        noisy_fields load_backdrop)
  then show "load_bytes (store_bytes 4096 torn_record backdrop) 4343 16
      = replicate 3 1 @ replicate 13 7"
    by simp
qed (simp_all add: load_inside_abs load_beyond_abs length_torn_record torn_fields
      noisy_fields load_backdrop)

section \<open>Claims about full-size records\<close>

text \<open>
  Claim C2. For every correctly-sized input record, the call copies the three 16-byte
  UUID regions verbatim from their offsets in the record into \<open>uuid\<close>, \<open>parent_uuid\<close>
  and \<open>received_uuid\<close> of the output: each output field is the corresponding slice of
  the input, byte \<open>i\<close> of the field being byte \<open>offset + i\<close> of the record; an all-zero
  \<open>parent_uuid\<close> or \<open>received_uuid\<close> region gives an all-zero field.
\<close>

theorem decode_copies_uuids:
  assumes "layout_ok L" and "length buf = item_size L"
    and "disjoint dst gosafe_size src (item_size L)"
  shows "\<exists>r. decode be L dst src (store_bytes src buf m) = Inr r \<and>
     uuid r = field_bytes buf (off_uuid L) BTRFS_UUID_SIZE \<and>
     parent_uuid r = field_bytes buf (off_parent_uuid L) BTRFS_UUID_SIZE \<and>
     received_uuid r = field_bytes buf (off_received_uuid L) BTRFS_UUID_SIZE \<and>
     length (uuid r) = 16 \<and> length (parent_uuid r) = 16 \<and> length (received_uuid r) = 16 \<and>
     (\<forall>i<16. uuid r ! i = buf ! (off_uuid L + i) \<and>
             parent_uuid r ! i = buf ! (off_parent_uuid L + i) \<and>
             received_uuid r ! i = buf ! (off_received_uuid L + i)) \<and>
     (field_bytes buf (off_parent_uuid L) BTRFS_UUID_SIZE = replicate 16 0 \<longrightarrow>
        parent_uuid r = replicate 16 0) \<and>
     (field_bytes buf (off_received_uuid L) BTRFS_UUID_SIZE = replicate 16 0 \<longrightarrow>
        received_uuid r = replicate 16 0)"
proof -
  have o: "off_uuid L + 16 \<le> length buf" "off_parent_uuid L + 16 \<le> length buf"
    "off_received_uuid L + 16 \<le> length buf"
    using assms(1,2) by (simp_all add: layout_ok_def BTRFS_UUID_SIZE_def)
  show ?thesis
    by (simp add: decode_placed [OF assms] BTRFS_UUID_SIZE_def length_field_bytes
        nth_field_bytes o)
qed

theorem decode_copies_uuids_witness:
  "layout_ok btrfs_root_item_layout \<and>
   length odd_record = item_size btrfs_root_item_layout \<and>
   disjoint 1000 gosafe_size 0 (item_size btrfs_root_item_layout) \<and>
   (\<exists>r. decode True btrfs_root_item_layout 1000 0 (store_bytes 0 odd_record (const_memory 0))
          = Inr r \<and>
        uuid r = replicate 16 255 \<and> parent_uuid r = replicate 16 254 \<and>
        received_uuid r = replicate 16 253)"
proof -
  have len: "length odd_record = item_size btrfs_root_item_layout"
    by (simp add: odd_record_def length_make_record)
  have f: "field_bytes odd_record (off_uuid btrfs_root_item_layout) 16 = replicate 16 255"
    "field_bytes odd_record (off_parent_uuid btrfs_root_item_layout) 16 = replicate 16 254"
    "field_bytes odd_record (off_received_uuid btrfs_root_item_layout) 16 = replicate 16 253"
    by (simp_all add: odd_record_def make_record_fields)
  show ?thesis
    using decode_copies_uuids [OF layout_ok_btrfs len disjoint_example,
        of True "const_memory 0"] layout_ok_btrfs len disjoint_example f
    by (auto simp: BTRFS_UUID_SIZE_def)
qed

text \<open>
  Claim C3. For every correctly-sized input record, \<open>gen\<close>, \<open>ogen\<close> and \<open>flags\<close> of the
  output are the 64-bit numbers encoded in the eight bytes at the generation, otransid
  and flags offsets of the record: the numeric value of each field is the little-endian
  value of those bytes, so a value \<open>g\<close>, \<open>t\<close> or \<open>f\<close> written there in that encoding is
  read back as the same number, on either kind of host; every bit of \<open>f\<close> arrives in
  \<open>flags\<close> unchanged.
\<close>

theorem decode_reads_numeric_fields:
  assumes "layout_ok L" and "length buf = item_size L"
    and "disjoint dst gosafe_size src (item_size L)"
  shows "\<exists>r. decode be L dst src (store_bytes src buf m) = Inr r \<and>
     unat (gen r) = le_val (field_bytes buf (off_generation L) 8) \<and>
     unat (ogen r) = le_val (field_bytes buf (off_otransid L) 8) \<and>
     unat (flags r) = le_val (field_bytes buf (off_flags L) 8) \<and>
     (field_bytes buf (off_generation L) 8 = le_bytes 8 (unat g) \<longrightarrow> gen r = g) \<and>
     (field_bytes buf (off_otransid L) 8 = le_bytes 8 (unat t) \<longrightarrow> ogen r = t) \<and>
     (field_bytes buf (off_flags L) 8 = le_bytes 8 (unat f) \<longrightarrow> flags r = f)"
proof -
  have o: "off_generation L + 8 \<le> length buf" "off_flags L + 8 \<le> length buf"
    "off_otransid L + 8 \<le> length buf"
    using assms(1,2) by (simp_all add: layout_ok_def)
  show ?thesis
    by (simp add: decode_placed [OF assms] unat_le64 length_field_bytes o le64_le_bytes)
qed

theorem decode_reads_numeric_fields_witness:
  "layout_ok btrfs_root_item_layout \<and>
   length odd_record = item_size btrfs_root_item_layout \<and>
   disjoint 1000 gosafe_size 0 (item_size btrfs_root_item_layout) \<and>
   field_bytes odd_record (off_generation btrfs_root_item_layout) 8 = le_bytes 8 (unat (1 :: u64)) \<and>
   field_bytes odd_record (off_otransid btrfs_root_item_layout) 8 = le_bytes 8 (unat (9 :: u64)) \<and>
   field_bytes odd_record (off_flags btrfs_root_item_layout) 8
     = le_bytes 8 (unat (18446744073709551615 :: u64)) \<and>
   (\<exists>r. decode True btrfs_root_item_layout 1000 0 (store_bytes 0 odd_record (const_memory 0))
          = Inr r \<and>
        gen r = 1 \<and> ogen r = 9 \<and> flags r = 18446744073709551615)"
proof -
  have len: "length odd_record = item_size btrfs_root_item_layout"
    by (simp add: odd_record_def length_make_record)
  have f: "field_bytes odd_record (off_generation btrfs_root_item_layout) 8
             = le_bytes 8 (unat (1 :: u64))"
    "field_bytes odd_record (off_otransid btrfs_root_item_layout) 8
             = le_bytes 8 (unat (9 :: u64))"
    "field_bytes odd_record (off_flags btrfs_root_item_layout) 8
             = le_bytes 8 (unat (18446744073709551615 :: u64))"
    by (simp_all add: odd_record_def make_record_fields)
  from decode_reads_numeric_fields [OF layout_ok_btrfs len disjoint_example,
      of True "const_memory 0" 1 9 18446744073709551615]
  obtain r where
    "decode True btrfs_root_item_layout 1000 0 (store_bytes 0 odd_record (const_memory 0)) = Inr r"
    "field_bytes odd_record (off_generation btrfs_root_item_layout) 8 = le_bytes 8 (unat (1 :: u64))
       \<longrightarrow> gen r = 1"
    "field_bytes odd_record (off_otransid btrfs_root_item_layout) 8 = le_bytes 8 (unat (9 :: u64))
       \<longrightarrow> ogen r = 9"
    "field_bytes odd_record (off_flags btrfs_root_item_layout) 8
       = le_bytes 8 (unat (18446744073709551615 :: u64)) \<longrightarrow> flags r = 18446744073709551615"
    by blast
  with f have "\<exists>r. decode True btrfs_root_item_layout 1000 0
        (store_bytes 0 odd_record (const_memory 0)) = Inr r \<and>
      gen r = 1 \<and> ogen r = 9 \<and> flags r = 18446744073709551615"
    by blast
  with layout_ok_btrfs len disjoint_example f show ?thesis
    by blast
qed


text \<open>
  Claim C5. For the record whose uuid region is 16 bytes of 0x01, whose parent_uuid and
  received_uuid regions are 16 bytes of 0x00, and whose generation, otransid and flags
  members encode 42, 40 and 1, the call returns exactly those six values.
\<close>

theorem decode_concrete_scenario:
  assumes "layout_ok L" and "length buf = item_size L"
    and "disjoint dst gosafe_size src (item_size L)"
    and "field_bytes buf (off_uuid L) 16 = replicate 16 1"
    and "field_bytes buf (off_parent_uuid L) 16 = replicate 16 0"
    and "field_bytes buf (off_received_uuid L) 16 = replicate 16 0"
    and "field_bytes buf (off_generation L) 8 = le_bytes 8 42"
    and "field_bytes buf (off_otransid L) 8 = le_bytes 8 40"
    and "field_bytes buf (off_flags L) 8 = le_bytes 8 1"
  shows "decode be L dst src (store_bytes src buf m) =
     Inr \<lparr>uuid = replicate 16 1, parent_uuid = replicate 16 0, received_uuid = replicate 16 0,
          gen = 42, ogen = 40, flags = 1\<rparr>"
proof -
  have "(word_of_nat (le_val (le_bytes 8 42)) :: u64) = 42"
    "(word_of_nat (le_val (le_bytes 8 40)) :: u64) = 40"
    "(word_of_nat (le_val (le_bytes 8 1)) :: u64) = 1"
    by (simp_all add: le_val_le_bytes)
  then show ?thesis
    using assms(4-9) by (simp add: decode_placed [OF assms(1-3)] BTRFS_UUID_SIZE_def)
qed

theorem decode_concrete_scenario_witness:
  "layout_ok btrfs_root_item_layout \<and>
   length sample_record = item_size btrfs_root_item_layout \<and>
   disjoint 1000 gosafe_size 0 (item_size btrfs_root_item_layout) \<and>
   field_bytes sample_record (off_uuid btrfs_root_item_layout) 16 = replicate 16 1 \<and>
   field_bytes sample_record (off_parent_uuid btrfs_root_item_layout) 16 = replicate 16 0 \<and>
   field_bytes sample_record (off_received_uuid btrfs_root_item_layout) 16 = replicate 16 0 \<and>
   field_bytes sample_record (off_generation btrfs_root_item_layout) 8 = le_bytes 8 42 \<and>
   field_bytes sample_record (off_otransid btrfs_root_item_layout) 8 = le_bytes 8 40 \<and>
   field_bytes sample_record (off_flags btrfs_root_item_layout) 8 = le_bytes 8 1 \<and>
   decode False btrfs_root_item_layout 1000 0 (store_bytes 0 sample_record (const_memory 0)) =
     Inr \<lparr>uuid = replicate 16 1, parent_uuid = replicate 16 0, received_uuid = replicate 16 0,
          gen = 42, ogen = 40, flags = 1\<rparr>"
proof -
  have len: "length sample_record = item_size btrfs_root_item_layout"
    by (simp add: sample_record_def length_make_record)
  have f: "field_bytes sample_record (off_uuid btrfs_root_item_layout) 16 = replicate 16 1"
    "field_bytes sample_record (off_parent_uuid btrfs_root_item_layout) 16 = replicate 16 0"
    "field_bytes sample_record (off_received_uuid btrfs_root_item_layout) 16 = replicate 16 0"
    "field_bytes sample_record (off_generation btrfs_root_item_layout) 8 = le_bytes 8 42"
    "field_bytes sample_record (off_otransid btrfs_root_item_layout) 8 = le_bytes 8 40"
    "field_bytes sample_record (off_flags btrfs_root_item_layout) 8 = le_bytes 8 1"
    by (simp_all add: sample_record_def make_record_fields)
  show ?thesis
    using decode_concrete_scenario [OF layout_ok_btrfs len disjoint_example f,
        of False "const_memory 0"] layout_ok_btrfs len disjoint_example f
    by blast
qed

text \<open>
  Claim C6. The call is deterministic: two correctly-sized input records with identical
  bytes give identical results in all six fields, wherever the record and the output
  structure lie, whatever the rest of memory holds, and on either kind of host.
\<close>

theorem decode_deterministic:
  assumes "layout_ok L" and "length buf = item_size L"
    and "disjoint dst1 gosafe_size src1 (item_size L)"
    and "disjoint dst2 gosafe_size src2 (item_size L)"
  shows "decode be1 L dst1 src1 (store_bytes src1 buf m1) =
         decode be2 L dst2 src2 (store_bytes src2 buf m2)"
  by (simp add: decode_placed [OF assms(1,2,3)] decode_placed [OF assms(1,2,4)])

theorem decode_deterministic_witness:
  "layout_ok btrfs_root_item_layout \<and>
   length sample_record = item_size btrfs_root_item_layout \<and>
   disjoint 1000 gosafe_size 0 (item_size btrfs_root_item_layout) \<and>
   disjoint 0 gosafe_size 5000 (item_size btrfs_root_item_layout) \<and>
   decode False btrfs_root_item_layout 1000 0 (store_bytes 0 sample_record (const_memory 0)) =
   decode True btrfs_root_item_layout 0 5000 (store_bytes 5000 sample_record (const_memory 255))"
proof -
  have len: "length sample_record = item_size btrfs_root_item_layout"
    by (simp add: sample_record_def length_make_record)
  have dj: "disjoint 0 gosafe_size 5000 (item_size btrfs_root_item_layout)"
    by (simp add: disjoint_def gosafe_size_def)
  show ?thesis
    using decode_deterministic [OF layout_ok_btrfs len disjoint_example dj,
        of False "const_memory 0" True "const_memory 255"] layout_ok_btrfs len disjoint_example dj
    by blast
qed

text \<open>
  Claim C7. The call is total over correctly-sized inputs: whatever the record holds
  (any UUID bytes, any flag bits, a generation below the origin generation), it returns,
  with all six fields of the output filled from the record. No condition on the content
  of the record is needed: nothing is validated.
\<close>

theorem decode_total:
  assumes "layout_ok L" and "length buf = item_size L"
    and "disjoint dst gosafe_size src (item_size L)"
  shows "\<exists>r. decode be L dst src (store_bytes src buf m) = Inr r \<and>
     r = \<lparr>uuid = field_bytes buf (off_uuid L) BTRFS_UUID_SIZE,
          parent_uuid = field_bytes buf (off_parent_uuid L) BTRFS_UUID_SIZE,
          received_uuid = field_bytes buf (off_received_uuid L) BTRFS_UUID_SIZE,
          gen = word_of_nat (le_val (field_bytes buf (off_generation L) 8)),
          ogen = word_of_nat (le_val (field_bytes buf (off_otransid L) 8)),
          flags = word_of_nat (le_val (field_bytes buf (off_flags L) 8))\<rparr>"
  by (simp add: decode_placed [OF assms])

theorem decode_total_witness:
  "layout_ok btrfs_root_item_layout \<and>
   length odd_record = item_size btrfs_root_item_layout \<and>
   disjoint 1000 gosafe_size 0 (item_size btrfs_root_item_layout) \<and>
   decode False btrfs_root_item_layout 1000 0 (store_bytes 0 odd_record (const_memory 0)) =
     Inr \<lparr>uuid = replicate 16 255, parent_uuid = replicate 16 254,
          received_uuid = replicate 16 253, gen = 1, ogen = 9,
          flags = 18446744073709551615\<rparr>"
proof -
  have len: "length odd_record = item_size btrfs_root_item_layout"
    by (simp add: odd_record_def length_make_record)
  have v: "(word_of_nat (le_val (le_bytes 8 1)) :: u64) = 1"
    "(word_of_nat (le_val (le_bytes 8 9)) :: u64) = 9"
    "(word_of_nat (le_val (le_bytes 8 18446744073709551615)) :: u64) = 18446744073709551615"
    by (simp_all add: le_val_le_bytes)
  show ?thesis
    using decode_total [OF layout_ok_btrfs len disjoint_example, of False "const_memory 0"]
      layout_ok_btrfs len disjoint_example v
    by (simp add: odd_record_def make_record_fields BTRFS_UUID_SIZE_def)
qed

text \<open>
  Claim C10. The result depends only on the uuid, parent_uuid, received_uuid,
  generation, otransid and flags members of the source record: two correctly-sized
  records that agree on those six regions give identical results, whatever their other
  bytes and whatever the rest of memory holds.
\<close>

theorem decode_depends_on_six_fields:
  assumes "layout_ok L" and "length buf1 = item_size L" and "length buf2 = item_size L"
    and "disjoint dst gosafe_size src (item_size L)"
    and "field_bytes buf1 (off_uuid L) BTRFS_UUID_SIZE
         = field_bytes buf2 (off_uuid L) BTRFS_UUID_SIZE"
    and "field_bytes buf1 (off_parent_uuid L) BTRFS_UUID_SIZE
         = field_bytes buf2 (off_parent_uuid L) BTRFS_UUID_SIZE"
    and "field_bytes buf1 (off_received_uuid L) BTRFS_UUID_SIZE
         = field_bytes buf2 (off_received_uuid L) BTRFS_UUID_SIZE"
    and "field_bytes buf1 (off_generation L) 8 = field_bytes buf2 (off_generation L) 8"
    and "field_bytes buf1 (off_otransid L) 8 = field_bytes buf2 (off_otransid L) 8"
    and "field_bytes buf1 (off_flags L) 8 = field_bytes buf2 (off_flags L) 8"
  shows "decode be L dst src (store_bytes src buf1 m1) =
         decode be L dst src (store_bytes src buf2 m2)"
  using assms(5-10)
  by (simp add: decode_placed [OF assms(1,2,4)] decode_placed [OF assms(1,3,4)])

theorem decode_depends_on_six_fields_witness:
  "layout_ok btrfs_root_item_layout \<and>
   length sample_record = item_size btrfs_root_item_layout \<and>
   length noisy_record = item_size btrfs_root_item_layout \<and>
   disjoint 1000 gosafe_size 0 (item_size btrfs_root_item_layout) \<and>
   sample_record ! 0 \<noteq> noisy_record ! 0 \<and>
   decode False btrfs_root_item_layout 1000 0 (store_bytes 0 sample_record (const_memory 0)) =
   decode False btrfs_root_item_layout 1000 0 (store_bytes 0 noisy_record (const_memory 0))"
proof -
  have len1: "length sample_record = item_size btrfs_root_item_layout"
    by (simp add: sample_record_def length_make_record)
  have len2: "length noisy_record = item_size btrfs_root_item_layout"
    by (simp add: noisy_record_def length_make_record)
  have ne: "sample_record ! 0 \<noteq> noisy_record ! 0"
    by (simp add: sample_record_def noisy_record_def make_record_def nth_append)
  have "decode False btrfs_root_item_layout 1000 0 (store_bytes 0 sample_record (const_memory 0)) =
      decode False btrfs_root_item_layout 1000 0 (store_bytes 0 noisy_record (const_memory 0))"
    by (rule decode_depends_on_six_fields [OF layout_ok_btrfs len1 len2 disjoint_example])
      (simp_all add: sample_record_def noisy_record_def make_record_fields BTRFS_UUID_SIZE_def)
  with layout_ok_btrfs len1 len2 disjoint_example ne show ?thesis
    by blast
qed


section \<open>Claims about effects\<close>

text \<open>
  Claim C8. The call has no side effect beyond the output structure: every byte of
  memory outside the 72 bytes at \<open>dst\<close> keeps its value, so an input record that does not
  overlap the output structure is left unmodified; every write of the call falls inside
  the output structure, and every read inside the source structure. The state holds
  nothing but the memory, so no reference to the input outlives the call.
\<close>

theorem unpack_root_item_frame:
  "(\<forall>x. x \<notin> region (dst, gosafe_size) \<longrightarrow>
        mem (unpack_root_item be L dst src st) x = mem st x) \<and>
   (\<forall>n. disjoint dst gosafe_size src n \<longrightarrow>
        load_bytes (mem (unpack_root_item be L dst src st)) src n = load_bytes (mem st) src n) \<and>
   (\<forall>w \<in> set (writes (unpack_root_item be L dst src st)).
        w \<in> set (writes st) \<or> region w \<subseteq> region (dst, gosafe_size)) \<and>
   (layout_ok L \<longrightarrow>
      (\<forall>r \<in> set (reads (unpack_root_item be L dst src st)).
        r \<in> set (reads st) \<or> region r \<subseteq> region (src, item_size L)))"
proof (intro conjI allI impI ballI)
  fix x
  assume "x \<notin> region (dst, gosafe_size)"
  then show "mem (unpack_root_item be L dst src st) x = mem st x"
    by (intro unpack_outside) (auto simp: region_def gosafe_size_def)
next
  fix n
  assume "disjoint dst gosafe_size src n"
  then show "load_bytes (mem (unpack_root_item be L dst src st)) src n = load_bytes (mem st) src n"
    by (auto simp: load_bytes_def disjoint_def gosafe_size_def intro!: unpack_outside)
next
  fix w
  assume "w \<in> set (writes (unpack_root_item be L dst src st))"
  then show "w \<in> set (writes st) \<or> region w \<subseteq> region (dst, gosafe_size)"
    by (auto simp: unpack_writes region_def gosafe_size_def)
next
  fix r
  assume "layout_ok L" and "r \<in> set (reads (unpack_root_item be L dst src st))"
  then show "r \<in> set (reads st) \<or> region r \<subseteq> region (src, item_size L)"
    by (auto simp: unpack_reads region_def layout_ok_def BTRFS_UUID_SIZE_def)
qed

theorem unpack_root_item_frame_witness:
  "0 \<notin> region (1000, gosafe_size) \<and>
   mem (unpack_root_item False btrfs_root_item_layout 1000 0
          (init_state (store_bytes 0 sample_record (const_memory 0)))) 0
     = mem (init_state (store_bytes 0 sample_record (const_memory 0))) 0 \<and>
   disjoint 1000 gosafe_size 0 (item_size btrfs_root_item_layout) \<and>
   load_bytes (mem (unpack_root_item False btrfs_root_item_layout 1000 0
          (init_state (store_bytes 0 sample_record (const_memory 0))))) 0
        (item_size btrfs_root_item_layout)
     = sample_record \<and>
   layout_ok btrfs_root_item_layout"
proof -
  have len: "length sample_record = item_size btrfs_root_item_layout"
    by (simp add: sample_record_def length_make_record)
  have out: "0 \<notin> region (1000, gosafe_size)"
    by (simp add: region_def)
  note t = unpack_root_item_frame [of 1000 False btrfs_root_item_layout 0
      "init_state (store_bytes 0 sample_record (const_memory 0))"]
  from t out have a: "mem (unpack_root_item False btrfs_root_item_layout 1000 0
          (init_state (store_bytes 0 sample_record (const_memory 0)))) 0
     = mem (init_state (store_bytes 0 sample_record (const_memory 0))) 0"
    by blast
  from t disjoint_example have "load_bytes (mem (unpack_root_item False btrfs_root_item_layout
          1000 0 (init_state (store_bytes 0 sample_record (const_memory 0))))) 0
        (item_size btrfs_root_item_layout)
     = load_bytes (mem (init_state (store_bytes 0 sample_record (const_memory 0)))) 0
        (item_size btrfs_root_item_layout)"
    by blast
  then have b: "load_bytes (mem (unpack_root_item False btrfs_root_item_layout
          1000 0 (init_state (store_bytes 0 sample_record (const_memory 0))))) 0
        (item_size btrfs_root_item_layout) = sample_record"
    by (simp add: init_state_def load_store_same len)
  from out a b disjoint_example layout_ok_btrfs show ?thesis
    by blast
qed

section \<open>Claims about failure and undersized buffers\<close>

text \<open>
  The specification lets the operation fail with \<open>RecordTooSmall\<close> exactly when the raw
  record is smaller than the structure. Here the record is cut to its first 300 bytes,
  so that the otransid member lies behind its end, and other mapped memory (holding 0x07)
  follows it. The call does not report an error: it returns, with \<open>ogen\<close> read from the
  bytes behind the record.
\<close>

theorem run_decode_cut_record:
  "length cut_record < item_size btrfs_root_item_layout \<and>
   run_decode wide_space False btrfs_root_item_layout 1000 4096
       (store_bytes 4096 cut_record backdrop) =
     Returned \<lparr>uuid = replicate 16 1, parent_uuid = replicate 16 0,
               received_uuid = replicate 16 0, gen = 42, ogen = 506381209866536711,
               flags = 1\<rparr> \<and>
   run_decode wide_space False btrfs_root_item_layout 1000 4096
       (store_bytes 4096 cut_record backdrop) \<noteq> Failed RecordTooSmall"
proof -
  have "run_decode wide_space False btrfs_root_item_layout 1000 4096
       (store_bytes 4096 cut_record backdrop) =
     Returned \<lparr>uuid = replicate 16 1, parent_uuid = replicate 16 0,
               received_uuid = replicate 16 0, gen = 42, ogen = 506381209866536711,
               flags = 1\<rparr>"
    unfolding run_decode_eq read_item_unpack [OF layout_ok_btrfs disjoint_wide]
    using access_ok_wide
    by (simp add: btrfs_root_item_layout_def cut_loads le64_of_le_bytes le_val_sevens)
  then show ?thesis
    by (simp add: length_cut_record btrfs_root_item_layout_def)
qed

text \<open>
  Claim C1, amended. The call never fails with \<open>RecordTooSmall\<close>, also when the raw
  record is smaller than the fixed size the member offsets require: the function has no
  size check, and no call, whatever its input, reports an error of any kind. For every
  correctly-sized record lying in mapped memory, with a mapped output structure that does
  not overlap it, the call succeeds, with all six fields taken from the record.
\<close>

theorem run_decode_no_error:
  "run_decode V be L dst src m \<noteq> Failed e \<and>
   (layout_ok L \<and> length buf = item_size L \<and> disjoint dst gosafe_size src (item_size L) \<and>
    mapped V src (item_size L) \<and> mapped V dst gosafe_size \<longrightarrow>
      run_decode V be L dst src (store_bytes src buf m) =
        Returned \<lparr>uuid = field_bytes buf (off_uuid L) BTRFS_UUID_SIZE,
                  parent_uuid = field_bytes buf (off_parent_uuid L) BTRFS_UUID_SIZE,
                  received_uuid = field_bytes buf (off_received_uuid L) BTRFS_UUID_SIZE,
                  gen = word_of_nat (le_val (field_bytes buf (off_generation L) 8)),
                  ogen = word_of_nat (le_val (field_bytes buf (off_otransid L) 8)),
                  flags = word_of_nat (le_val (field_bytes buf (off_flags L) 8))\<rparr>)"
proof (intro conjI impI)
  show "run_decode V be L dst src m \<noteq> Failed e"
    by (rule run_decode_not_failed)
next
  assume a: "layout_ok L \<and> length buf = item_size L \<and>
    disjoint dst gosafe_size src (item_size L) \<and>
    mapped V src (item_size L) \<and> mapped V dst gosafe_size"
  then have ok: "access_ok V L dst src"
    by (intro access_ok_full) simp_all
  from a have "decode be L dst src (store_bytes src buf m) =
      Inr \<lparr>uuid = field_bytes buf (off_uuid L) BTRFS_UUID_SIZE,
           parent_uuid = field_bytes buf (off_parent_uuid L) BTRFS_UUID_SIZE,
           received_uuid = field_bytes buf (off_received_uuid L) BTRFS_UUID_SIZE,
           gen = word_of_nat (le_val (field_bytes buf (off_generation L) 8)),
           ogen = word_of_nat (le_val (field_bytes buf (off_otransid L) 8)),
           flags = word_of_nat (le_val (field_bytes buf (off_flags L) 8))\<rparr>"
    by (intro decode_placed) simp_all
  with ok show "run_decode V be L dst src (store_bytes src buf m) =
      Returned \<lparr>uuid = field_bytes buf (off_uuid L) BTRFS_UUID_SIZE,
                parent_uuid = field_bytes buf (off_parent_uuid L) BTRFS_UUID_SIZE,
                received_uuid = field_bytes buf (off_received_uuid L) BTRFS_UUID_SIZE,
                gen = word_of_nat (le_val (field_bytes buf (off_generation L) 8)),
                ogen = word_of_nat (le_val (field_bytes buf (off_otransid L) 8)),
                flags = word_of_nat (le_val (field_bytes buf (off_flags L) 8))\<rparr>"
    by (simp add: run_decode_eq decode_def)
qed

theorem run_decode_no_error_witness:
  "layout_ok btrfs_root_item_layout \<and>
   length sample_record = item_size btrfs_root_item_layout \<and>
   disjoint 1000 gosafe_size 4096 (item_size btrfs_root_item_layout) \<and>
   mapped wide_space 4096 (item_size btrfs_root_item_layout) \<and>
   mapped wide_space 1000 gosafe_size \<and>
   run_decode wide_space True btrfs_root_item_layout 1000 4096
       (store_bytes 4096 sample_record backdrop) =
     Returned \<lparr>uuid = replicate 16 1, parent_uuid = replicate 16 0,
               received_uuid = replicate 16 0, gen = 42, ogen = 40, flags = 1\<rparr>"
proof -
  have len: "length sample_record = item_size btrfs_root_item_layout"
    by (simp add: length_sample_record btrfs_root_item_layout_def)
  have ms: "mapped wide_space 4096 (item_size btrfs_root_item_layout)"
    by (simp add: mapped_wide_src btrfs_root_item_layout_def)
  have md: "mapped wide_space 1000 gosafe_size"
    by (simp add: mapped_wide_dst gosafe_size_def)
  note h = layout_ok_btrfs len disjoint_wide ms md
  have f: "field_bytes sample_record (off_uuid btrfs_root_item_layout) BTRFS_UUID_SIZE
        = replicate 16 1"
    "field_bytes sample_record (off_parent_uuid btrfs_root_item_layout) BTRFS_UUID_SIZE
        = replicate 16 0"
    "field_bytes sample_record (off_received_uuid btrfs_root_item_layout) BTRFS_UUID_SIZE
        = replicate 16 0"
    "(word_of_nat (le_val (field_bytes sample_record (off_generation btrfs_root_item_layout) 8))
        :: u64) = 42"
    "(word_of_nat (le_val (field_bytes sample_record (off_otransid btrfs_root_item_layout) 8))
        :: u64) = 40"
    "(word_of_nat (le_val (field_bytes sample_record (off_flags btrfs_root_item_layout) 8))
        :: u64) = 1"
    by (simp_all add: btrfs_root_item_layout_def BTRFS_UUID_SIZE_def sample_fields le64_of_le_bytes)
  from run_decode_no_error [of wide_space True btrfs_root_item_layout 1000 4096
      backdrop RecordTooSmall sample_record] h
  have "run_decode wide_space True btrfs_root_item_layout 1000 4096
       (store_bytes 4096 sample_record backdrop) =
     Returned \<lparr>uuid = replicate 16 1, parent_uuid = replicate 16 0,
               received_uuid = replicate 16 0, gen = 42, ogen = 40, flags = 1\<rparr>"
    unfolding f by blast
  with h show ?thesis
    by blast
qed


text \<open>
  The specification also asks that a buffer shorter than the structure is rejected
  without a read past its end and without any output. Here the buffer holds the first
  250 bytes of a record, so that it ends three bytes into the uuid member. With mapped
  memory (holding 0x07) behind the buffer the call returns a result whose \<open>uuid\<close> is three
  bytes of the buffer followed by thirteen bytes from behind it; with nothing mapped
  behind the buffer the call faults. It reports \<open>RecordTooSmall\<close> in neither case.
\<close>

theorem run_decode_torn_record:
  "length torn_record < item_size btrfs_root_item_layout \<and>
   run_decode wide_space False btrfs_root_item_layout 1000 4096
       (store_bytes 4096 torn_record backdrop) =
     Returned \<lparr>uuid = replicate 3 1 @ replicate 13 7, parent_uuid = replicate 16 7,
               received_uuid = replicate 16 7, gen = 42, ogen = 506381209866536711,
               flags = 1\<rparr> \<and>
   run_decode tight_space False btrfs_root_item_layout 1000 4096
       (store_bytes 4096 torn_record backdrop) = Fault"
proof -
  have "run_decode wide_space False btrfs_root_item_layout 1000 4096
       (store_bytes 4096 torn_record backdrop) =
     Returned \<lparr>uuid = replicate 3 1 @ replicate 13 7, parent_uuid = replicate 16 7,
               received_uuid = replicate 16 7, gen = 42, ogen = 506381209866536711,
               flags = 1\<rparr>"
    unfolding run_decode_eq read_item_unpack [OF layout_ok_btrfs disjoint_wide]
    using access_ok_wide
    by (simp add: btrfs_root_item_layout_def torn_loads le64_of_le_bytes le_val_sevens)
  moreover have "\<not> mapped tight_space (4096 + off_uuid btrfs_root_item_layout) BTRFS_UUID_SIZE"
    by (rule not_mapped_witness [of _ 4346])
      (simp_all add: btrfs_root_item_layout_def BTRFS_UUID_SIZE_def tight_space_def)
  then have "run_decode tight_space False btrfs_root_item_layout 1000 4096
       (store_bytes 4096 torn_record backdrop) = Fault"
    by (simp add: run_decode_eq access_ok_def)
  ultimately show ?thesis
    by (simp add: length_torn_record btrfs_root_item_layout_def)
qed

text \<open>
  Claim C4, amended. For every input buffer shorter than the required fixed record size
  the call does not fail with \<open>RecordTooSmall\<close>: the function has no size check and
  accesses the same six members at their fixed offsets as for a full record. If one of
  the bytes it reads or writes is not mapped, the call faults. Otherwise it returns with
  the output written: each field whose source member does not overlap the output
  structure holds the bytes found at the member's offset, which are those of the buffer
  where the member lies inside it and those of the memory behind the buffer where it
  lies beyond its end. The statement holds for a buffer of any length.
\<close>

theorem run_decode_short_buffer:
  "run_decode V be L dst src (store_bytes src buf m) \<noteq> Failed e \<and>
   (run_decode V be L dst src (store_bytes src buf m) = Fault \<longleftrightarrow> \<not> access_ok V L dst src) \<and>
   (access_ok V L dst src \<longrightarrow>
     (\<exists>r. run_decode V be L dst src (store_bytes src buf m) = Returned r \<and>
        (disjoint dst gosafe_size (src + off_uuid L) BTRFS_UUID_SIZE \<longrightarrow>
           uuid r = load_bytes (store_bytes src buf m) (src + off_uuid L) BTRFS_UUID_SIZE) \<and>
        (disjoint dst gosafe_size (src + off_parent_uuid L) BTRFS_UUID_SIZE \<longrightarrow>
           parent_uuid r =
             load_bytes (store_bytes src buf m) (src + off_parent_uuid L) BTRFS_UUID_SIZE) \<and>
        (disjoint dst gosafe_size (src + off_received_uuid L) BTRFS_UUID_SIZE \<longrightarrow>
           received_uuid r =
             load_bytes (store_bytes src buf m) (src + off_received_uuid L) BTRFS_UUID_SIZE) \<and>
        (disjoint dst gosafe_size (src + off_generation L) 8 \<longrightarrow>
           gen r = word_of_nat
             (le_val (load_bytes (store_bytes src buf m) (src + off_generation L) 8))) \<and>
        (disjoint dst gosafe_size (src + off_otransid L) 8 \<longrightarrow>
           ogen r = word_of_nat
             (le_val (load_bytes (store_bytes src buf m) (src + off_otransid L) 8))) \<and>
        (disjoint dst gosafe_size (src + off_flags L) 8 \<longrightarrow>
           flags r = word_of_nat
             (le_val (load_bytes (store_bytes src buf m) (src + off_flags L) 8))))) \<and>
   (\<forall>off n. off + n \<le> length buf \<longrightarrow>
      load_bytes (store_bytes src buf m) (src + off) n = field_bytes buf off n) \<and>
   (\<forall>off n. length buf \<le> off \<longrightarrow>
      load_bytes (store_bytes src buf m) (src + off) n = load_bytes m (src + off) n)"
proof (intro conjI allI impI)
  show "run_decode V be L dst src (store_bytes src buf m) \<noteq> Failed e"
    by (rule run_decode_not_failed)
next
  show "run_decode V be L dst src (store_bytes src buf m) = Fault \<longleftrightarrow> \<not> access_ok V L dst src"
    by (simp add: run_decode_eq)
next
  assume "access_ok V L dst src"
  then have "run_decode V be L dst src (store_bytes src buf m) =
      Returned (read_item be
        (mem (unpack_root_item be L dst src (init_state (store_bytes src buf m)))) dst)"
    by (simp add: run_decode_eq)
  moreover have "mem (init_state (store_bytes src buf m)) = store_bytes src buf m"
    by (simp add: init_state_def)
  ultimately show "\<exists>r. run_decode V be L dst src (store_bytes src buf m) = Returned r \<and>
        (disjoint dst gosafe_size (src + off_uuid L) BTRFS_UUID_SIZE \<longrightarrow>
           uuid r = load_bytes (store_bytes src buf m) (src + off_uuid L) BTRFS_UUID_SIZE) \<and>
        (disjoint dst gosafe_size (src + off_parent_uuid L) BTRFS_UUID_SIZE \<longrightarrow>
           parent_uuid r =
             load_bytes (store_bytes src buf m) (src + off_parent_uuid L) BTRFS_UUID_SIZE) \<and>
        (disjoint dst gosafe_size (src + off_received_uuid L) BTRFS_UUID_SIZE \<longrightarrow>
           received_uuid r =
             load_bytes (store_bytes src buf m) (src + off_received_uuid L) BTRFS_UUID_SIZE) \<and>
        (disjoint dst gosafe_size (src + off_generation L) 8 \<longrightarrow>
           gen r = word_of_nat
             (le_val (load_bytes (store_bytes src buf m) (src + off_generation L) 8))) \<and>
        (disjoint dst gosafe_size (src + off_otransid L) 8 \<longrightarrow>
           ogen r = word_of_nat
             (le_val (load_bytes (store_bytes src buf m) (src + off_otransid L) 8))) \<and>
        (disjoint dst gosafe_size (src + off_flags L) 8 \<longrightarrow>
           flags r = word_of_nat
             (le_val (load_bytes (store_bytes src buf m) (src + off_flags L) 8)))"
    using unpack_uuid_field [of be L dst src "init_state (store_bytes src buf m)"]
      unpack_parent_uuid_field [of dst src L be "init_state (store_bytes src buf m)"]
      unpack_received_uuid_field [of dst src L be "init_state (store_bytes src buf m)"]
      unpack_gen_field [of dst src L be "init_state (store_bytes src buf m)"]
      unpack_ogen_field [of dst src L be "init_state (store_bytes src buf m)"]
      unpack_flags_field [of dst src L be "init_state (store_bytes src buf m)"]
    by (simp add: read_item_def)
next
  fix off n
  assume "off + n \<le> length buf"
  then show "load_bytes (store_bytes src buf m) (src + off) n = field_bytes buf off n"
    by (rule load_placed)
next
  fix off n
  assume "length buf \<le> off"
  then show "load_bytes (store_bytes src buf m) (src + off) n = load_bytes m (src + off) n"
    by (rule load_beyond)
qed


theorem run_decode_short_buffer_witness:
  "length torn_record < item_size btrfs_root_item_layout \<and>
   access_ok wide_space btrfs_root_item_layout 1000 4096 \<and>
   disjoint 1000 gosafe_size (4096 + off_otransid btrfs_root_item_layout) 8 \<and>
   length torn_record \<le> off_otransid btrfs_root_item_layout \<and>
   (\<exists>r. run_decode wide_space True btrfs_root_item_layout 1000 4096
          (store_bytes 4096 torn_record backdrop) = Returned r \<and>
        ogen r = word_of_nat
          (le_val (load_bytes backdrop (4096 + off_otransid btrfs_root_item_layout) 8))) \<and>
   \<not> access_ok tight_space btrfs_root_item_layout 1000 4096 \<and>
   run_decode tight_space True btrfs_root_item_layout 1000 4096
       (store_bytes 4096 torn_record backdrop) = Fault"
proof -
  have len: "length torn_record < item_size btrfs_root_item_layout"
    by (simp add: length_torn_record btrfs_root_item_layout_def)
  have dj: "disjoint 1000 gosafe_size (4096 + off_otransid btrfs_root_item_layout) 8"
    by (simp add: disjoint_def gosafe_size_def)
  have le: "length torn_record \<le> off_otransid btrfs_root_item_layout"
    by (simp add: length_torn_record btrfs_root_item_layout_def)
  have "\<not> mapped tight_space (4096 + off_uuid btrfs_root_item_layout) BTRFS_UUID_SIZE"
    by (rule not_mapped_witness [of _ 4346])
      (simp_all add: btrfs_root_item_layout_def BTRFS_UUID_SIZE_def tight_space_def)
  then have no: "\<not> access_ok tight_space btrfs_root_item_layout 1000 4096"
    by (simp add: access_ok_def)
  note w = run_decode_short_buffer [of wide_space True btrfs_root_item_layout 1000 4096
      torn_record backdrop RecordTooSmall]
  note t = run_decode_short_buffer [of tight_space True btrfs_root_item_layout 1000 4096
      torn_record backdrop RecordTooSmall]
  from w le have b: "load_bytes (store_bytes 4096 torn_record backdrop)
        (4096 + off_otransid btrfs_root_item_layout) 8
      = load_bytes backdrop (4096 + off_otransid btrfs_root_item_layout) 8"
    by blast
  from w access_ok_wide dj obtain r where
    "run_decode wide_space True btrfs_root_item_layout 1000 4096
        (store_bytes 4096 torn_record backdrop) = Returned r"
    "ogen r = word_of_nat (le_val (load_bytes (store_bytes 4096 torn_record backdrop)
        (4096 + off_otransid btrfs_root_item_layout) 8))"
    by blast
  with b have e: "\<exists>r. run_decode wide_space True btrfs_root_item_layout 1000 4096
          (store_bytes 4096 torn_record backdrop) = Returned r \<and>
        ogen r = word_of_nat
          (le_val (load_bytes backdrop (4096 + off_otransid btrfs_root_item_layout) 8))"
    by auto
  from t no have "run_decode tight_space True btrfs_root_item_layout 1000 4096
       (store_bytes 4096 torn_record backdrop) = Fault"
    by blast
  with len access_ok_wide dj le e no show ?thesis
    by blast
qed

section \<open>Claims about the absence of checks\<close>

text \<open>
  Read literally, claim C9 has every call perform its six writes. A call whose \<open>dst\<close> is
  the null pointer faults at its first statement, in an address space where address 0 is
  not mapped, and so does a call whose \<open>src\<close> is the null pointer: neither performs the
  six writes.
\<close>

theorem run_unpack_root_item_null:
  "0 \<notin> wide_space \<and>
   run_unpack_root_item wide_space False btrfs_root_item_layout 0 4096
       (init_state (store_bytes 4096 sample_record backdrop)) = Fault \<and>
   run_unpack_root_item wide_space False btrfs_root_item_layout 1000 0
       (init_state (store_bytes 4096 sample_record backdrop)) = Fault"
proof -
  have "\<not> mapped wide_space (0 + gosafe_uuid) BTRFS_UUID_SIZE"
    by (simp add: gosafe_defs not_mapped_null null_not_wide)
  then have d: "\<not> access_ok wide_space btrfs_root_item_layout 0 4096"
    by (simp add: access_ok_def)
  have "\<not> mapped wide_space (0 + off_uuid btrfs_root_item_layout) BTRFS_UUID_SIZE"
    by (rule not_mapped_witness [of _ 247])
      (simp_all add: btrfs_root_item_layout_def BTRFS_UUID_SIZE_def wide_space_def)
  then have s: "\<not> access_ok wide_space btrfs_root_item_layout 1000 0"
    by (simp add: access_ok_def)
  from d s show ?thesis
    by (simp add: run_unpack_eq null_not_wide)
qed

text \<open>
  Claim C9, amended. The function has no error channel: it returns nothing and makes no
  size, bounds or null check on either pointer. The only thing that stops a call is a
  fault on an unmapped address, which a null pointer produces like any other; a call all
  of whose accesses hit mapped memory performs its six reads and its six writes, in
  order, and leaves in each output field the content of its source member (where that
  member does not overlap the output structure). On no path is a failure reported to
  the caller.
\<close>

theorem run_unpack_root_item_unchecked:
  "run_unpack_root_item V be L dst src st \<noteq> Failed e \<and>
   (run_unpack_root_item V be L dst src st = Fault \<longleftrightarrow> \<not> access_ok V L dst src) \<and>
   (access_ok V L dst src \<longrightarrow>
     (\<exists>st'. run_unpack_root_item V be L dst src st = Returned st' \<and>
        writes st' = writes st @
          [(dst + gosafe_uuid, BTRFS_UUID_SIZE), (dst + gosafe_parent_uuid, BTRFS_UUID_SIZE),
           (dst + gosafe_received_uuid, BTRFS_UUID_SIZE), (dst + gosafe_gen, 8),
           (dst + gosafe_ogen, 8), (dst + gosafe_flags, 8)] \<and>
        reads st' = reads st @
          [(src + off_uuid L, BTRFS_UUID_SIZE), (src + off_parent_uuid L, BTRFS_UUID_SIZE),
           (src + off_received_uuid L, BTRFS_UUID_SIZE), (src + off_generation L, 8),
           (src + off_otransid L, 8), (src + off_flags L, 8)] \<and>
        (disjoint dst gosafe_size (src + off_uuid L) BTRFS_UUID_SIZE \<longrightarrow>
           load_bytes (mem st') (dst + gosafe_uuid) BTRFS_UUID_SIZE
             = load_bytes (mem st) (src + off_uuid L) BTRFS_UUID_SIZE) \<and>
        (disjoint dst gosafe_size (src + off_parent_uuid L) BTRFS_UUID_SIZE \<longrightarrow>
           load_bytes (mem st') (dst + gosafe_parent_uuid) BTRFS_UUID_SIZE
             = load_bytes (mem st) (src + off_parent_uuid L) BTRFS_UUID_SIZE) \<and>
        (disjoint dst gosafe_size (src + off_received_uuid L) BTRFS_UUID_SIZE \<longrightarrow>
           load_bytes (mem st') (dst + gosafe_received_uuid) BTRFS_UUID_SIZE
             = load_bytes (mem st) (src + off_received_uuid L) BTRFS_UUID_SIZE) \<and>
        (disjoint dst gosafe_size (src + off_generation L) 8 \<longrightarrow>
           u64_value be (load_bytes (mem st') (dst + gosafe_gen) 8)
             = word_of_nat (le_val (load_bytes (mem st) (src + off_generation L) 8))) \<and>
        (disjoint dst gosafe_size (src + off_otransid L) 8 \<longrightarrow>
           u64_value be (load_bytes (mem st') (dst + gosafe_ogen) 8)
             = word_of_nat (le_val (load_bytes (mem st) (src + off_otransid L) 8))) \<and>
        (disjoint dst gosafe_size (src + off_flags L) 8 \<longrightarrow>
           u64_value be (load_bytes (mem st') (dst + gosafe_flags) 8)
             = word_of_nat (le_val (load_bytes (mem st) (src + off_flags L) 8))))) \<and>
   (0 \<notin> V \<longrightarrow> run_unpack_root_item V be L 0 src st = Fault) \<and>
   (\<not> mapped V (off_uuid L) BTRFS_UUID_SIZE \<longrightarrow> run_unpack_root_item V be L dst 0 st = Fault)"
proof (intro conjI impI)
  show "run_unpack_root_item V be L dst src st \<noteq> Failed e"
    by (rule run_unpack_not_failed)
next
  show "run_unpack_root_item V be L dst src st = Fault \<longleftrightarrow> \<not> access_ok V L dst src"
    by (simp add: run_unpack_eq)
next
  assume "access_ok V L dst src"
  then have "run_unpack_root_item V be L dst src st = Returned (unpack_root_item be L dst src st)"
    by (simp add: run_unpack_eq)
  then show "\<exists>st'. run_unpack_root_item V be L dst src st = Returned st' \<and>
        writes st' = writes st @
          [(dst + gosafe_uuid, BTRFS_UUID_SIZE), (dst + gosafe_parent_uuid, BTRFS_UUID_SIZE),
           (dst + gosafe_received_uuid, BTRFS_UUID_SIZE), (dst + gosafe_gen, 8),
           (dst + gosafe_ogen, 8), (dst + gosafe_flags, 8)] \<and>
        reads st' = reads st @
          [(src + off_uuid L, BTRFS_UUID_SIZE), (src + off_parent_uuid L, BTRFS_UUID_SIZE),
           (src + off_received_uuid L, BTRFS_UUID_SIZE), (src + off_generation L, 8),
           (src + off_otransid L, 8), (src + off_flags L, 8)] \<and>
        (disjoint dst gosafe_size (src + off_uuid L) BTRFS_UUID_SIZE \<longrightarrow>
           load_bytes (mem st') (dst + gosafe_uuid) BTRFS_UUID_SIZE
             = load_bytes (mem st) (src + off_uuid L) BTRFS_UUID_SIZE) \<and>
        (disjoint dst gosafe_size (src + off_parent_uuid L) BTRFS_UUID_SIZE \<longrightarrow>
           load_bytes (mem st') (dst + gosafe_parent_uuid) BTRFS_UUID_SIZE
             = load_bytes (mem st) (src + off_parent_uuid L) BTRFS_UUID_SIZE) \<and>
        (disjoint dst gosafe_size (src + off_received_uuid L) BTRFS_UUID_SIZE \<longrightarrow>
           load_bytes (mem st') (dst + gosafe_received_uuid) BTRFS_UUID_SIZE
             = load_bytes (mem st) (src + off_received_uuid L) BTRFS_UUID_SIZE) \<and>
        (disjoint dst gosafe_size (src + off_generation L) 8 \<longrightarrow>
           u64_value be (load_bytes (mem st') (dst + gosafe_gen) 8)
             = word_of_nat (le_val (load_bytes (mem st) (src + off_generation L) 8))) \<and>
        (disjoint dst gosafe_size (src + off_otransid L) 8 \<longrightarrow>
           u64_value be (load_bytes (mem st') (dst + gosafe_ogen) 8)
             = word_of_nat (le_val (load_bytes (mem st) (src + off_otransid L) 8))) \<and>
        (disjoint dst gosafe_size (src + off_flags L) 8 \<longrightarrow>
           u64_value be (load_bytes (mem st') (dst + gosafe_flags) 8)
             = word_of_nat (le_val (load_bytes (mem st) (src + off_flags L) 8)))"
    using unpack_uuid_field [of be L dst src st]
      unpack_parent_uuid_field [of dst src L be st]
      unpack_received_uuid_field [of dst src L be st]
      unpack_gen_field [of dst src L be st]
      unpack_ogen_field [of dst src L be st]
      unpack_flags_field [of dst src L be st]
    by (simp add: unpack_reads unpack_writes gosafe_defs)
next
  assume "0 \<notin> V"
  then have "\<not> mapped V (0 + gosafe_uuid) BTRFS_UUID_SIZE"
    by (simp add: gosafe_defs not_mapped_null)
  then show "run_unpack_root_item V be L 0 src st = Fault"
    by (simp add: run_unpack_eq access_ok_def)
next
  assume "\<not> mapped V (off_uuid L) BTRFS_UUID_SIZE"
  then show "run_unpack_root_item V be L dst 0 st = Fault"
    by (simp add: run_unpack_eq access_ok_def)
qed

theorem run_unpack_root_item_unchecked_witness:
  "access_ok wide_space btrfs_root_item_layout 1000 4096 \<and>
   disjoint 1000 gosafe_size (4096 + off_uuid btrfs_root_item_layout) BTRFS_UUID_SIZE \<and>
   (\<exists>st'. run_unpack_root_item wide_space False btrfs_root_item_layout 1000 4096
            (init_state (store_bytes 4096 sample_record backdrop)) = Returned st' \<and>
          load_bytes (mem st') (1000 + gosafe_uuid) BTRFS_UUID_SIZE = replicate 16 1 \<and>
          load_bytes backdrop (1000 + gosafe_uuid) BTRFS_UUID_SIZE = replicate 16 255) \<and>
   \<not> access_ok tight_space btrfs_root_item_layout 1000 4096 \<and>
   run_unpack_root_item tight_space False btrfs_root_item_layout 1000 4096
       (init_state (store_bytes 4096 sample_record backdrop)) = Fault \<and>
   0 \<notin> wide_space \<and>
   run_unpack_root_item wide_space False btrfs_root_item_layout 0 4096
       (init_state (store_bytes 4096 sample_record backdrop)) = Fault"
proof -
  have dj: "disjoint 1000 gosafe_size (4096 + off_uuid btrfs_root_item_layout) BTRFS_UUID_SIZE"
    by (simp add: disjoint_def gosafe_size_def)
  have "\<not> mapped tight_space (4096 + off_uuid btrfs_root_item_layout) BTRFS_UUID_SIZE"
    by (rule not_mapped_witness [of _ 4346])
      (simp_all add: btrfs_root_item_layout_def BTRFS_UUID_SIZE_def tight_space_def)
  then have no: "\<not> access_ok tight_space btrfs_root_item_layout 1000 4096"
    by (simp add: access_ok_def)
  have src: "load_bytes (mem (init_state (store_bytes 4096 sample_record backdrop)))
        (4096 + off_uuid btrfs_root_item_layout) BTRFS_UUID_SIZE = replicate 16 1"
    by (simp add: init_state_def btrfs_root_item_layout_def BTRFS_UUID_SIZE_def
        load_inside_abs length_sample_record sample_fields)
  have old: "load_bytes backdrop (1000 + gosafe_uuid) BTRFS_UUID_SIZE = replicate 16 255"
  proof -
    have "load_bytes backdrop 1000 16 = field_bytes (replicate 72 255) (1000 - 1000) 16"
      unfolding backdrop_def by (rule load_inside_abs) simp_all
    then show ?thesis
      by (simp add: gosafe_defs field_bytes_def)
  qed
  note w = run_unpack_root_item_unchecked [of wide_space False btrfs_root_item_layout 1000 4096
      "init_state (store_bytes 4096 sample_record backdrop)" RecordTooSmall]
  note t = run_unpack_root_item_unchecked [of tight_space False btrfs_root_item_layout 1000 4096
      "init_state (store_bytes 4096 sample_record backdrop)" RecordTooSmall]
  note z = run_unpack_root_item_unchecked [of wide_space False btrfs_root_item_layout 0 4096
      "init_state (store_bytes 4096 sample_record backdrop)" RecordTooSmall]
  from w access_ok_wide dj obtain st' where
    "run_unpack_root_item wide_space False btrfs_root_item_layout 1000 4096
        (init_state (store_bytes 4096 sample_record backdrop)) = Returned st'"
    "load_bytes (mem st') (1000 + gosafe_uuid) BTRFS_UUID_SIZE
       = load_bytes (mem (init_state (store_bytes 4096 sample_record backdrop)))
           (4096 + off_uuid btrfs_root_item_layout) BTRFS_UUID_SIZE"
    by blast
  with src old have e: "\<exists>st'. run_unpack_root_item wide_space False btrfs_root_item_layout
            1000 4096 (init_state (store_bytes 4096 sample_record backdrop)) = Returned st' \<and>
          load_bytes (mem st') (1000 + gosafe_uuid) BTRFS_UUID_SIZE = replicate 16 1 \<and>
          load_bytes backdrop (1000 + gosafe_uuid) BTRFS_UUID_SIZE = replicate 16 255"
    by auto
  from t no have f: "run_unpack_root_item tight_space False btrfs_root_item_layout 1000 4096
       (init_state (store_bytes 4096 sample_record backdrop)) = Fault"
    by blast
  from z null_not_wide have n: "run_unpack_root_item wide_space False btrfs_root_item_layout
       0 4096 (init_state (store_bytes 4096 sample_record backdrop)) = Fault"
    by blast
  from access_ok_wide dj e no f null_not_wide n show ?thesis
    by blast
qed

end
